theory Spec2Isabelle
  imports Complex_Main "HOL-Library.Monad_Syntax"
begin

section \<open>The free-fly camera of \<^verbatim>\<open>includes/learnopengl/camera.h\<close>\<close>

text \<open>
  The header declares one class, \<^verbatim>\<open>Camera\<close>, over the plain struct \<^verbatim>\<open>_Camera\<close>. Every
  member function is embedded as a function from the object before the call to the object
  after it.

  Numbers. The source computes in \<^verbatim>\<open>float\<close>. The main embedding computes in \<^typ>\<open>real\<close>:
  every scalar is a real number and \<open>+\<close>, \<open>-\<close>, \<open>*\<close>, \<open>cos\<close>, \<open>sin\<close> and \<open>sqrt\<close> are exact.
  NaN or infinite arguments are outside it. One non-real result can arise from real
  arguments and is kept: \<^verbatim>\<open>glm::normalize\<close> of the zero vector multiplies 0 by 1/sqrt(0),
  which gives NaN in every component. A vector is therefore either three reals or
  \<open>vec3_nan\<close>, the vector whose components are all NaN, and the vector operations
  propagate it as the component-wise float operations do.

  The exact embedding says which expression each member function computes. Whether two
  computed values are equal also depends on the rounding of every float operation, so
  \<^verbatim>\<open>ProcessKeyboard\<close> is embedded a second time, in binary32 arithmetic.

  Exact angles differ from the float ones in kind at one place: \<open>radians 90\<close> is exactly
  \<open>pi / 2\<close>, where the cosine is 0, while \<^verbatim>\<open>glm::radians(90.0f)\<close> is the binary32 number next
  to \<open>pi / 2\<close>, which lies above it. What the constructor does at pitch 90 is therefore
  settled on a second embedding of the constructor, whose angles are converted to radians
  in binary32.
\<close>

subsection \<open>Vectors (the part of GLM the header uses)\<close>

datatype vec3 = vec3 real real real | vec3_nan

text \<open>\<^verbatim>\<open>a + b\<close>, \<^verbatim>\<open>a - b\<close> and \<^verbatim>\<open>v * s\<close> on \<^verbatim>\<open>glm::vec3\<close>, component by component.\<close>

fun vadd :: "vec3 \<Rightarrow> vec3 \<Rightarrow> vec3" where
  "vadd (vec3 a b c) (vec3 d e f) = vec3 (a + d) (b + e) (c + f)"
| "vadd _ _ = vec3_nan"

fun vsub :: "vec3 \<Rightarrow> vec3 \<Rightarrow> vec3" where
  "vsub (vec3 a b c) (vec3 d e f) = vec3 (a - d) (b - e) (c - f)"
| "vsub _ _ = vec3_nan"

fun vscale :: "vec3 \<Rightarrow> real \<Rightarrow> vec3" where
  "vscale (vec3 a b c) s = vec3 (a * s) (b * s) (c * s)"
| "vscale vec3_nan s = vec3_nan"

text \<open>\<^verbatim>\<open>glm::dot\<close>; \<open>None\<close> is NaN.\<close>

fun dot :: "vec3 \<Rightarrow> vec3 \<Rightarrow> real option" where
  "dot (vec3 a b c) (vec3 d e f) = Some (a * d + b * e + c * f)"
| "dot _ _ = None"

text \<open>\<^verbatim>\<open>glm::length(v)\<close> is \<^verbatim>\<open>sqrt(dot(v, v))\<close>.\<close>

definition length_vec :: "vec3 \<Rightarrow> real option" where
  "length_vec v = map_option sqrt (dot v v)"

text \<open>\<^verbatim>\<open>glm::cross(a, b)\<close> is \<^verbatim>\<open>(a.y*b.z - b.y*a.z, a.z*b.x - b.z*a.x, a.x*b.y - b.x*a.y)\<close>.\<close>

fun cross :: "vec3 \<Rightarrow> vec3 \<Rightarrow> vec3" where
  "cross (vec3 ax ay az) (vec3 bx by bz) =
     vec3 (ay * bz - by * az) (az * bx - bz * ax) (ax * by - bx * ay)"
| "cross _ _ = vec3_nan"

text \<open>
  \<^verbatim>\<open>glm::normalize(v)\<close> is \<^verbatim>\<open>v * inversesqrt(dot(v, v))\<close>. When \<^verbatim>\<open>dot(v, v)\<close> is 0 the vector
  is the zero vector, \<^verbatim>\<open>inversesqrt\<close> is infinite and every product 0 * inf is NaN.
\<close>

fun normalize_vec :: "vec3 \<Rightarrow> vec3" where
  "normalize_vec (vec3 a b c) =
     (let d = a * a + b * b + c * c
      in if d = 0 then vec3_nan else vscale (vec3 a b c) (1 / sqrt d))"
| "normalize_vec vec3_nan = vec3_nan"

text \<open>\<^verbatim>\<open>glm::radians\<close>: degrees times pi / 180.\<close>

definition radians :: "real \<Rightarrow> real" where
  "radians degrees = degrees * (pi / 180)"

subsection \<open>Data\<close>

datatype Camera_Movement = FORWARD | BACKWARD | LEFT | RIGHT

definition YAW :: real where "YAW = - 90"
definition PITCH :: real where "PITCH = 0"
definition SPEED :: real where "SPEED = 2.5"
definition SENSITIVITY :: real where "SENSITIVITY = 0.1"
definition ZOOM :: real where "ZOOM = 45"

text \<open>\<^verbatim>\<open>struct _EulerAngles\<close>.\<close>

record EulerAngles_t =
  Yaw :: real
  Pitch :: real

text \<open>\<^verbatim>\<open>struct _Camera\<close>, in the order of its members.\<close>

record Camera_t =
  Position :: vec3
  Front :: vec3
  Up :: vec3
  Right :: vec3
  WorldUp :: vec3
  EulerAngles :: EulerAngles_t
  MovementSpeed :: real
  MouseSensitivity :: real
  Zoom :: real

subsection \<open>Operations\<close>

text \<open>The macro \<^verbatim>\<open>_EulerAnglesRotate(_this, front)\<close>: the three assignments to \<^verbatim>\<open>front\<close>.\<close>

definition EulerAnglesRotate :: "EulerAngles_t \<Rightarrow> vec3" where
  "EulerAnglesRotate e =
     vec3 (cos (radians (Yaw e)) * cos (radians (Pitch e)))
          (sin (radians (Pitch e)))
          (sin (radians (Yaw e)) * cos (radians (Pitch e)))"

text \<open>
  \<^verbatim>\<open>Camera::updateCameraVectors\<close>: three assignments in sequence, each reading the object
  as the assignments before it left it.
\<close>

definition updateCameraVectors :: "Camera_t \<Rightarrow> Camera_t" where
  "updateCameraVectors this =
     (let front = EulerAnglesRotate (EulerAngles this);
          c1 = this\<lparr>Front := normalize_vec front\<rparr>;
          c2 = c1\<lparr>Right := normalize_vec (cross (Front c1) (WorldUp c1))\<rparr>;
          c3 = c2\<lparr>Up := normalize_vec (cross (Right c2) (Front c2))\<rparr>
      in c3)"

text \<open>
  The constructors. A constructor runs on the storage of the new object, whose members
  hold indeterminate values until they are assigned; that storage is the argument
  \<open>this\<close>. \<^verbatim>\<open>Up\<close> and \<^verbatim>\<open>Right\<close> are assigned by \<^verbatim>\<open>updateCameraVectors\<close> only.
\<close>

definition Camera :: "Camera_t \<Rightarrow> vec3 \<Rightarrow> vec3 \<Rightarrow> real \<Rightarrow> real \<Rightarrow> Camera_t" where
  "Camera this position up yaw pitch =
     (let c1 = this\<lparr>Front := vec3 0 0 (- 1)\<rparr>;
          c2 = c1\<lparr>MovementSpeed := SPEED\<rparr>;
          c3 = c2\<lparr>MouseSensitivity := SENSITIVITY\<rparr>;
          c4 = c3\<lparr>Zoom := ZOOM\<rparr>;
          c5 = c4\<lparr>Position := position\<rparr>;
          c6 = c5\<lparr>WorldUp := up\<rparr>;
          c7 = c6\<lparr>EulerAngles := (EulerAngles c6)\<lparr>Yaw := yaw\<rparr>\<rparr>;
          c8 = c7\<lparr>EulerAngles := (EulerAngles c7)\<lparr>Pitch := pitch\<rparr>\<rparr>
      in updateCameraVectors c8)"

text \<open>The first constructor with every default argument.\<close>

definition Camera_default :: "Camera_t \<Rightarrow> Camera_t" where
  "Camera_default this = Camera this (vec3 0 0 0) (vec3 0 1 0) YAW PITCH"

text \<open>The constructor with scalar values.\<close>

definition Camera_scalars ::
  "Camera_t \<Rightarrow> real \<Rightarrow> real \<Rightarrow> real \<Rightarrow> real \<Rightarrow> real \<Rightarrow> real \<Rightarrow> real \<Rightarrow> real \<Rightarrow> Camera_t" where
  "Camera_scalars this posX posY posZ upX upY upZ yaw pitch =
     (let c1 = this\<lparr>Front := vec3 0 0 (- 1)\<rparr>;
          c2 = c1\<lparr>MovementSpeed := SPEED\<rparr>;
          c3 = c2\<lparr>MouseSensitivity := SENSITIVITY\<rparr>;
          c4 = c3\<lparr>Zoom := ZOOM\<rparr>;
          c5 = c4\<lparr>Position := vec3 posX posY posZ\<rparr>;
          c6 = c5\<lparr>WorldUp := vec3 upX upY upZ\<rparr>;
          c7 = c6\<lparr>EulerAngles := (EulerAngles c6)\<lparr>Yaw := yaw\<rparr>\<rparr>;
          c8 = c7\<lparr>EulerAngles := (EulerAngles c7)\<lparr>Pitch := pitch\<rparr>\<rparr>
      in updateCameraVectors c8)"

text \<open>\<^verbatim>\<open>Camera::ProcessKeyboard\<close>: four independent \<^verbatim>\<open>if\<close> statements, in the source's order.\<close>

definition ProcessKeyboard :: "Camera_t \<Rightarrow> Camera_Movement \<Rightarrow> real \<Rightarrow> Camera_t" where
  "ProcessKeyboard this direction deltaTime =
     (let velocity = MovementSpeed this * deltaTime;
          c1 = (if direction = FORWARD
                then this\<lparr>Position := vadd (Position this) (vscale (Front this) velocity)\<rparr>
                else this);
          c2 = (if direction = BACKWARD
                then c1\<lparr>Position := vsub (Position c1) (vscale (Front c1) velocity)\<rparr>
                else c1);
          c3 = (if direction = LEFT
                then c2\<lparr>Position := vsub (Position c2) (vscale (Right c2) velocity)\<rparr>
                else c2);
          c4 = (if direction = RIGHT
                then c3\<lparr>Position := vadd (Position c3) (vscale (Right c3) velocity)\<rparr>
                else c3)
      in c4)"

text \<open>\<^verbatim>\<open>Camera::ProcessMouseMovement\<close>; \<^verbatim>\<open>GLboolean constrainPitch\<close> is tested for truth only.\<close>

definition ProcessMouseMovement :: "Camera_t \<Rightarrow> real \<Rightarrow> real \<Rightarrow> bool \<Rightarrow> Camera_t" where
  "ProcessMouseMovement this xoffset0 yoffset0 constrainPitch =
     (let xoffset = xoffset0 * MouseSensitivity this;
          yoffset = yoffset0 * MouseSensitivity this;
          c1 = this\<lparr>EulerAngles := (EulerAngles this)\<lparr>Yaw := Yaw (EulerAngles this) + xoffset\<rparr>\<rparr>;
          c2 = c1\<lparr>EulerAngles := (EulerAngles c1)\<lparr>Pitch := Pitch (EulerAngles c1) + yoffset\<rparr>\<rparr>;
          c3 = (if constrainPitch
                then (let d1 = (if Pitch (EulerAngles c2) > 89
                                then c2\<lparr>EulerAngles := (EulerAngles c2)\<lparr>Pitch := 89\<rparr>\<rparr>
                                else c2);
                          d2 = (if Pitch (EulerAngles d1) < - 89
                                then d1\<lparr>EulerAngles := (EulerAngles d1)\<lparr>Pitch := - 89\<rparr>\<rparr>
                                else d1)
                      in d2)
                else c2)
      in updateCameraVectors c3)"

text \<open>\<^verbatim>\<open>Camera::ProcessMouseScroll\<close>.\<close>

definition ProcessMouseScroll :: "Camera_t \<Rightarrow> real \<Rightarrow> Camera_t" where
  "ProcessMouseScroll this yoffset =
     (let c1 = this\<lparr>Zoom := Zoom this - yoffset\<rparr>;
          c2 = (if Zoom c1 < 1 then c1\<lparr>Zoom := 1\<rparr> else c1);
          c3 = (if Zoom c2 > 45 then c2\<lparr>Zoom := 45\<rparr> else c2)
      in c3)"

subsection \<open>Binary32 rounding\<close>

text \<open>Rounding a real to the nearest integer, a tie going to the even neighbour.\<close>

definition round_to_even :: "real \<Rightarrow> int" where
  "round_to_even r =
     (let f = \<lfloor>r\<rfloor>
      in if r - of_int f < 1 / 2 then f
         else if r - of_int f > 1 / 2 then f + 1
         else if even f then f else f + 1)"

text \<open>
  IEEE 754 round-to-nearest-even onto binary32, the result of each \<^verbatim>\<open>float\<close> operation on
  finite operands. A binary32 number is a multiple of \<open>2 powr e\<close> with at most 24
  significant bits; \<open>e\<close> is 23 below the binary exponent of the argument and at least
  -149 (the subnormal numbers). \<open>None\<close>: the rounded magnitude reaches \<open>2 ^ 128\<close>, and the
  float result is an infinity.
\<close>

definition round32 :: "real \<Rightarrow> real option" where
  "round32 x =
     (if x = 0 then Some 0
      else (let e = max (\<lfloor>log 2 \<bar>x\<bar>\<rfloor> - 23) (- 149);
                r = of_int (round_to_even (x / 2 powr of_int e)) * 2 powr of_int e
            in if \<bar>r\<bar> < 2 ^ 128 then Some r else None))"

subsection \<open>\<^verbatim>\<open>ProcessKeyboard\<close> in binary32 arithmetic\<close>

text \<open>\<^verbatim>\<open>v * s\<close>, \<^verbatim>\<open>a + b\<close> and \<^verbatim>\<open>a - b\<close> on \<^verbatim>\<open>glm::vec3\<close>, each component rounded.\<close>

fun vscale32 :: "vec3 \<Rightarrow> real \<Rightarrow> vec3 option" where
  "vscale32 (vec3 a b c) s =
     do { x \<leftarrow> round32 (a * s); y \<leftarrow> round32 (b * s); z \<leftarrow> round32 (c * s);
          Some (vec3 x y z) }"
| "vscale32 vec3_nan s = Some vec3_nan"

fun vadd32 :: "vec3 \<Rightarrow> vec3 \<Rightarrow> vec3 option" where
  "vadd32 (vec3 a b c) (vec3 d e f) =
     do { x \<leftarrow> round32 (a + d); y \<leftarrow> round32 (b + e); z \<leftarrow> round32 (c + f);
          Some (vec3 x y z) }"
| "vadd32 _ _ = Some vec3_nan"

fun vsub32 :: "vec3 \<Rightarrow> vec3 \<Rightarrow> vec3 option" where
  "vsub32 (vec3 a b c) (vec3 d e f) =
     do { x \<leftarrow> round32 (a - d); y \<leftarrow> round32 (b - e); z \<leftarrow> round32 (c - f);
          Some (vec3 x y z) }"
| "vsub32 _ _ = Some vec3_nan"

text \<open>
  \<^verbatim>\<open>Camera::ProcessKeyboard\<close> with every float operation rounded; the members of \<open>this\<close> and
  \<open>deltaTime\<close> are binary32 numbers. \<open>None\<close>: some operation overflows.
\<close>

definition ProcessKeyboard_f32 :: "Camera_t \<Rightarrow> Camera_Movement \<Rightarrow> real \<Rightarrow> Camera_t option" where
  "ProcessKeyboard_f32 this direction deltaTime =
     do {
       velocity \<leftarrow> round32 (MovementSpeed this * deltaTime);
       c1 \<leftarrow> (if direction = FORWARD
              then do { m \<leftarrow> vscale32 (Front this) velocity;
                        p \<leftarrow> vadd32 (Position this) m;
                        Some (this\<lparr>Position := p\<rparr>) }
              else Some this);
       c2 \<leftarrow> (if direction = BACKWARD
              then do { m \<leftarrow> vscale32 (Front c1) velocity;
                        p \<leftarrow> vsub32 (Position c1) m;
                        Some (c1\<lparr>Position := p\<rparr>) }
              else Some c1);
       c3 \<leftarrow> (if direction = LEFT
              then do { m \<leftarrow> vscale32 (Right c2) velocity;
                        p \<leftarrow> vsub32 (Position c2) m;
                        Some (c2\<lparr>Position := p\<rparr>) }
              else Some c2);
       c4 \<leftarrow> (if direction = RIGHT
              then do { m \<leftarrow> vscale32 (Right c3) velocity;
                        p \<leftarrow> vadd32 (Position c3) m;
                        Some (c3\<lparr>Position := p\<rparr>) }
              else Some c3);
       Some c4
     }"

subsection \<open>Construction with the angles in binary32 radians\<close>

text \<open>
  \<^verbatim>\<open>glm::radians(degrees)\<close> on a \<^verbatim>\<open>float\<close> is
  \<^verbatim>\<open>degrees * static_cast<float>(0.01745329251994329576923690768489)\<close>: the literal is
  rounded to binary32 and so is the product. \<open>degrees\<close> is a binary32 number.
\<close>

definition radians_f32 :: "real \<Rightarrow> real option" where
  "radians_f32 degrees =
     do { k \<leftarrow> round32 0.01745329251994329576923690768489;
          round32 (degrees * k) }"

text \<open>
  The macro, \<^verbatim>\<open>updateCameraVectors\<close> and the first constructor once more. The arguments of
  \<open>cos\<close> and \<open>sin\<close> are the binary32 numbers \<^verbatim>\<open>glm::radians\<close> returns; \<open>cos\<close>, \<open>sin\<close> and
  the vector arithmetic stay exact. \<open>None\<close>: the conversion of an angle overflows.
\<close>

definition EulerAnglesRotate_r32 :: "EulerAngles_t \<Rightarrow> vec3 option" where
  "EulerAnglesRotate_r32 e =
     do { yaw \<leftarrow> radians_f32 (Yaw e);
          pitch \<leftarrow> radians_f32 (Pitch e);
          Some (vec3 (cos yaw * cos pitch) (sin pitch) (sin yaw * cos pitch)) }"

definition updateCameraVectors_r32 :: "Camera_t \<Rightarrow> Camera_t option" where
  "updateCameraVectors_r32 this =
     do { front \<leftarrow> EulerAnglesRotate_r32 (EulerAngles this);
          let c1 = this\<lparr>Front := normalize_vec front\<rparr>;
              c2 = c1\<lparr>Right := normalize_vec (cross (Front c1) (WorldUp c1))\<rparr>;
              c3 = c2\<lparr>Up := normalize_vec (cross (Right c2) (Front c2))\<rparr>
          in Some c3 }"

definition Camera_r32 :: "Camera_t \<Rightarrow> vec3 \<Rightarrow> vec3 \<Rightarrow> real \<Rightarrow> real \<Rightarrow> Camera_t option" where
  "Camera_r32 this position up yaw pitch =
     (let c1 = this\<lparr>Front := vec3 0 0 (- 1)\<rparr>;
          c2 = c1\<lparr>MovementSpeed := SPEED\<rparr>;
          c3 = c2\<lparr>MouseSensitivity := SENSITIVITY\<rparr>;
          c4 = c3\<lparr>Zoom := ZOOM\<rparr>;
          c5 = c4\<lparr>Position := position\<rparr>;
          c6 = c5\<lparr>WorldUp := up\<rparr>;
          c7 = c6\<lparr>EulerAngles := (EulerAngles c6)\<lparr>Yaw := yaw\<rparr>\<rparr>;
          c8 = c7\<lparr>EulerAngles := (EulerAngles c7)\<lparr>Pitch := pitch\<rparr>\<rparr>
      in updateCameraVectors_r32 c8)"

subsection \<open>Reachable states and properties of a basis\<close>

text \<open>
  The states a camera can be in: those a constructor returns, and those a member function
  returns when called on such a state.
\<close>

inductive reachable :: "Camera_t \<Rightarrow> bool" where
  by_vectors: "reachable (Camera this position up yaw pitch)"
| by_scalars: "reachable (Camera_scalars this posX posY posZ upX upY upZ yaw pitch)"
| keyboard: "reachable c \<Longrightarrow> reachable (ProcessKeyboard c direction deltaTime)"
| mouse: "reachable c \<Longrightarrow> reachable (ProcessMouseMovement c xoffset yoffset constrainPitch)"
| scroll: "reachable c \<Longrightarrow> reachable (ProcessMouseScroll c yoffset)"

text \<open>Three vectors are mutually orthogonal unit vectors.\<close>

definition orthonormal :: "vec3 \<Rightarrow> vec3 \<Rightarrow> vec3 \<Rightarrow> bool" where
  "orthonormal f r u =
     (length_vec f = Some 1 \<and> length_vec r = Some 1 \<and> length_vec u = Some 1 \<and>
      dot f r = Some 0 \<and> dot f u = Some 0 \<and> dot r u = Some 0)"

text \<open>
  The stored basis is the one the current yaw, pitch and world-up determine: recomputing
  it changes nothing.
\<close>

definition basis_current :: "Camera_t \<Rightarrow> bool" where
  "basis_current c = (updateCameraVectors c = c)"

text \<open>Storage filled with zeros, handed to the constructors in the closed examples.\<close>

definition zeroed :: Camera_t where
  "zeroed = \<lparr>Position = vec3 0 0 0, Front = vec3 0 0 0, Up = vec3 0 0 0, Right = vec3 0 0 0,
             WorldUp = vec3 0 0 0, EulerAngles = \<lparr>Yaw = 0, Pitch = 0\<rparr>,
             MovementSpeed = 0, MouseSensitivity = 0, Zoom = 0\<rparr>"

text \<open>
  A camera far from the origin, looking along +X: yaw 0 and pitch 0, for which \<open>cos\<close> and
  \<open>sin\<close> return 1 and 0 in float arithmetic too.
\<close>

definition far_camera :: Camera_t where
  "far_camera = Camera zeroed (vec3 16777216 0 0) (vec3 0 1 0) 0 0"

section \<open>Properties\<close>

subsection \<open>The basis recomputation\<close>

lemma sq_front:
  "(cos a * cos b) * (cos a * cos b) + sin b * sin b + (sin a * cos b) * (sin a * cos b) = (1::real)"
proof -
  have "(cos a * cos b) * (cos a * cos b) + sin b * sin b + (sin a * cos b) * (sin a * cos b)
      = (cos a * cos a + sin a * sin a) * (cos b * cos b) + sin b * sin b"
    by (simp only: algebra_simps)
  also have "\<dots> = cos b * cos b + sin b * sin b"
    by (simp only: sin_cos_squared_add3 mult_1)
  also have "\<dots> = 1"
    by (rule sin_cos_squared_add3)
  finally show ?thesis .
qed

text \<open>The vector the macro computes has length 1 already, so normalising it changes nothing.\<close>

lemma EulerAnglesRotate_unit:
  "\<exists>a b c. EulerAnglesRotate e = vec3 a b c \<and> a * a + b * b + c * c = 1"
  by (simp add: EulerAnglesRotate_def sq_front)

lemma normalize_EulerAnglesRotate: "normalize_vec (EulerAnglesRotate e) = EulerAnglesRotate e"
  by (simp add: EulerAnglesRotate_def sq_front Let_def)

lemma updateCameraVectors_fields:
  "Front (updateCameraVectors c) = EulerAnglesRotate (EulerAngles c)"
  "Right (updateCameraVectors c) = normalize_vec (cross (EulerAnglesRotate (EulerAngles c)) (WorldUp c))"
  "Up (updateCameraVectors c) =
     normalize_vec (cross (normalize_vec (cross (EulerAnglesRotate (EulerAngles c)) (WorldUp c)))
                          (EulerAnglesRotate (EulerAngles c)))"
  "Position (updateCameraVectors c) = Position c"
  "WorldUp (updateCameraVectors c) = WorldUp c"
  "EulerAngles (updateCameraVectors c) = EulerAngles c"
  "MovementSpeed (updateCameraVectors c) = MovementSpeed c"
  "MouseSensitivity (updateCameraVectors c) = MouseSensitivity c"
  "Zoom (updateCameraVectors c) = Zoom c"
  by (simp_all add: updateCameraVectors_def Let_def normalize_EulerAnglesRotate)

lemma updateCameraVectors_idem:
  "updateCameraVectors (updateCameraVectors c) = updateCameraVectors c"
  by (simp add: updateCameraVectors_def Let_def)

lemma updateCameraVectors_Position:
  "updateCameraVectors (c\<lparr>Position := p\<rparr>) = (updateCameraVectors c)\<lparr>Position := p\<rparr>"
  by (simp add: updateCameraVectors_def Let_def)

lemma updateCameraVectors_Zoom:
  "updateCameraVectors (c\<lparr>Zoom := z\<rparr>) = (updateCameraVectors c)\<lparr>Zoom := z\<rparr>"
  by (simp add: updateCameraVectors_def Let_def)

text \<open>
  C4. The basis recomputation sets front to the normalisation of
  (cos(radians(yaw)) * cos(radians(pitch)), sin(radians(pitch)), sin(radians(yaw)) * cos(radians(pitch))),
  then right to normalize(cross(front, world_up)), then up to normalize(cross(right, front)):
  right is computed from the new front and up from the new right. The basis stored before
  the call plays no part in the result.
\<close>

theorem updateCameraVectors_basis:
  "Front (updateCameraVectors c) =
     normalize_vec (vec3 (cos (radians (Yaw (EulerAngles c))) * cos (radians (Pitch (EulerAngles c))))
                         (sin (radians (Pitch (EulerAngles c))))
                         (sin (radians (Yaw (EulerAngles c))) * cos (radians (Pitch (EulerAngles c))))) \<and>
   Right (updateCameraVectors c) = normalize_vec (cross (Front (updateCameraVectors c)) (WorldUp c)) \<and>
   Up (updateCameraVectors c) =
     normalize_vec (cross (Right (updateCameraVectors c)) (Front (updateCameraVectors c))) \<and>
   updateCameraVectors (c\<lparr>Front := f, Right := r, Up := u\<rparr>) = updateCameraVectors c"
  by (simp add: updateCameraVectors_def Let_def EulerAnglesRotate_def)

subsection \<open>Keyboard\<close>

text \<open>
  C5. \<^verbatim>\<open>ProcessKeyboard(direction, deltaTime)\<close> moves position by front (FORWARD), minus front
  (BACKWARD), minus right (LEFT) or right (RIGHT), each scaled by
  \<^verbatim>\<open>MovementSpeed * deltaTime\<close>.
\<close>

theorem ProcessKeyboard_translates:
  "Position (ProcessKeyboard c FORWARD deltaTime)
     = vadd (Position c) (vscale (Front c) (MovementSpeed c * deltaTime)) \<and>
   Position (ProcessKeyboard c BACKWARD deltaTime)
     = vsub (Position c) (vscale (Front c) (MovementSpeed c * deltaTime)) \<and>
   Position (ProcessKeyboard c LEFT deltaTime)
     = vsub (Position c) (vscale (Right c) (MovementSpeed c * deltaTime)) \<and>
   Position (ProcessKeyboard c RIGHT deltaTime)
     = vadd (Position c) (vscale (Right c) (MovementSpeed c * deltaTime))"
  by (simp add: ProcessKeyboard_def Let_def)

lemma ProcessKeyboard_only_Position:
  "ProcessKeyboard c d dt = c\<lparr>Position := Position (ProcessKeyboard c d dt)\<rparr>"
  by (cases d) (simp_all add: ProcessKeyboard_def Let_def)

text \<open>
  C8. \<^verbatim>\<open>ProcessKeyboard\<close> changes position only: yaw, pitch, front, right, up, world-up,
  movement speed, mouse sensitivity and zoom are what they were, whatever the direction
  and deltaTime.
\<close>

theorem ProcessKeyboard_keeps_other_members:
  "EulerAngles (ProcessKeyboard c direction deltaTime) = EulerAngles c \<and>
   Front (ProcessKeyboard c direction deltaTime) = Front c \<and>
   Right (ProcessKeyboard c direction deltaTime) = Right c \<and>
   Up (ProcessKeyboard c direction deltaTime) = Up c \<and>
   WorldUp (ProcessKeyboard c direction deltaTime) = WorldUp c \<and>
   MovementSpeed (ProcessKeyboard c direction deltaTime) = MovementSpeed c \<and>
   MouseSensitivity (ProcessKeyboard c direction deltaTime) = MouseSensitivity c \<and>
   Zoom (ProcessKeyboard c direction deltaTime) = Zoom c"
  by (cases direction) (simp_all add: ProcessKeyboard_def Let_def)

subsection \<open>Mouse movement\<close>

text \<open>
  C2. With \<^verbatim>\<open>constrainPitch\<close> true, \<^verbatim>\<open>ProcessMouseMovement\<close> adds xoffset times the mouse
  sensitivity to yaw and yoffset times the mouse sensitivity to pitch, and clamps pitch to
  [-89, 89] after the addition; so pitch lies in [-89, 89] after the call, whatever the
  offsets.
\<close>

theorem ProcessMouseMovement_constrained:
  "Yaw (EulerAngles (ProcessMouseMovement c xoffset yoffset True))
     = Yaw (EulerAngles c) + xoffset * MouseSensitivity c \<and>
   Pitch (EulerAngles (ProcessMouseMovement c xoffset yoffset True))
     = max (- 89) (min 89 (Pitch (EulerAngles c) + yoffset * MouseSensitivity c)) \<and>
   - 89 \<le> Pitch (EulerAngles (ProcessMouseMovement c xoffset yoffset True)) \<and>
   Pitch (EulerAngles (ProcessMouseMovement c xoffset yoffset True)) \<le> 89"
  by (simp add: ProcessMouseMovement_def updateCameraVectors_def Let_def)

subsection \<open>Construction\<close>

lemma Camera_default_fields:
  "Position (Camera_default this) = vec3 0 0 0"
  "WorldUp (Camera_default this) = vec3 0 1 0"
  "Yaw (EulerAngles (Camera_default this)) = - 90"
  "Pitch (EulerAngles (Camera_default this)) = 0"
  "MovementSpeed (Camera_default this) = 2.5"
  "MouseSensitivity (Camera_default this) = 0.1"
  "Zoom (Camera_default this) = 45"
  "Front (Camera_default this) = vec3 0 0 (- 1)"
  "Right (Camera_default this) = vec3 1 0 0"
  "Up (Camera_default this) = vec3 0 1 0"
  by (simp_all add: Camera_default_def Camera_def updateCameraVectors_def Let_def
      EulerAnglesRotate_def radians_def YAW_def PITCH_def SPEED_def SENSITIVITY_def ZOOM_def)

text \<open>
  C7. Construction with every default gives position (0,0,0), world-up (0,1,0), yaw -90,
  pitch 0, movement speed 2.5, mouse sensitivity 0.1 and zoom 45, and the basis
  recomputation that ends the constructor leaves front at (0,0,-1), whatever the storage
  held before.
\<close>

theorem Camera_default_state:
  "Position (Camera_default this) = vec3 0 0 0 \<and>
   WorldUp (Camera_default this) = vec3 0 1 0 \<and>
   Yaw (EulerAngles (Camera_default this)) = - 90 \<and>
   Pitch (EulerAngles (Camera_default this)) = 0 \<and>
   MovementSpeed (Camera_default this) = 2.5 \<and>
   MouseSensitivity (Camera_default this) = 0.1 \<and>
   Zoom (Camera_default this) = 45 \<and>
   Front (Camera_default this) = vec3 0 0 (- 1)"
  by (simp add: Camera_default_fields)

text \<open>
  C10, as amended. Both constructors store the yaw and pitch they are given, unclamped
  (pitch 90 is stored as 90), and set movement speed, mouse sensitivity and zoom to 2.5,
  0.1 and 45: no argument reaches these three.
\<close>

theorem constructors_store_angles_unclamped:
  "EulerAngles (Camera this position up yaw pitch) = \<lparr>Yaw = yaw, Pitch = pitch\<rparr> \<and>
   MovementSpeed (Camera this position up yaw pitch) = 2.5 \<and>
   MouseSensitivity (Camera this position up yaw pitch) = 0.1 \<and>
   Zoom (Camera this position up yaw pitch) = 45 \<and>
   EulerAngles (Camera_scalars this posX posY posZ upX upY upZ yaw pitch)
     = \<lparr>Yaw = yaw, Pitch = pitch\<rparr> \<and>
   MovementSpeed (Camera_scalars this posX posY posZ upX upY upZ yaw pitch) = 2.5 \<and>
   MouseSensitivity (Camera_scalars this posX posY posZ upX upY upZ yaw pitch) = 0.1 \<and>
   Zoom (Camera_scalars this posX posY posZ upX upY upZ yaw pitch) = 45 \<and>
   Pitch (EulerAngles (Camera this position up yaw 90)) = 90 \<and>
   Pitch (EulerAngles (Camera_scalars this posX posY posZ upX upY upZ yaw 90)) = 90"
  by (simp add: Camera_def Camera_scalars_def updateCameraVectors_fields Let_def
      SPEED_def SENSITIVITY_def ZOOM_def)

text \<open>
  C9. With \<^verbatim>\<open>constrainPitch\<close> false, \<^verbatim>\<open>ProcessMouseMovement\<close> clamps nothing: pitch becomes the
  previous pitch plus yoffset times the mouse sensitivity (and yaw the previous yaw plus
  xoffset times it), and the basis the call leaves is the one recomputed from these
  angles. Pitch can leave [-89, 89]: from the default camera, yoffset 1000 gives pitch 100.
\<close>

theorem ProcessMouseMovement_unconstrained:
  "Pitch (EulerAngles (ProcessMouseMovement c xoffset yoffset False))
     = Pitch (EulerAngles c) + yoffset * MouseSensitivity c \<and>
   Yaw (EulerAngles (ProcessMouseMovement c xoffset yoffset False))
     = Yaw (EulerAngles c) + xoffset * MouseSensitivity c \<and>
   Front (ProcessMouseMovement c xoffset yoffset False)
     = EulerAnglesRotate (EulerAngles (ProcessMouseMovement c xoffset yoffset False)) \<and>
   Right (ProcessMouseMovement c xoffset yoffset False)
     = normalize_vec (cross (Front (ProcessMouseMovement c xoffset yoffset False)) (WorldUp c)) \<and>
   Up (ProcessMouseMovement c xoffset yoffset False)
     = normalize_vec (cross (Right (ProcessMouseMovement c xoffset yoffset False))
                            (Front (ProcessMouseMovement c xoffset yoffset False))) \<and>
   Pitch (EulerAngles (ProcessMouseMovement (Camera_default zeroed) 0 1000 False)) = 100"
  by (simp add: ProcessMouseMovement_def updateCameraVectors_fields Camera_default_fields)

subsection \<open>Scroll\<close>

text \<open>
  C3. For every yoffset, \<^verbatim>\<open>ProcessMouseScroll(yoffset)\<close> sets zoom to the previous zoom minus
  yoffset, saturated into [1, 45]; so zoom lies in [1, 45] after the call.
\<close>

theorem ProcessMouseScroll_saturates:
  "Zoom (ProcessMouseScroll c yoffset) = min 45 (max 1 (Zoom c - yoffset)) \<and>
   1 \<le> Zoom (ProcessMouseScroll c yoffset) \<and> Zoom (ProcessMouseScroll c yoffset) \<le> 45"
  by (simp add: ProcessMouseScroll_def Let_def)

lemma ProcessMouseScroll_only_Zoom:
  "ProcessMouseScroll c y = c\<lparr>Zoom := Zoom (ProcessMouseScroll c y)\<rparr>"
  by (simp add: ProcessMouseScroll_def Let_def)

subsection \<open>Reachable states keep the basis current\<close>

lemma reachable_basis_current: "reachable c \<Longrightarrow> basis_current c"
proof (induction rule: reachable.induct)
  case (by_vectors this position up yaw pitch)
  show ?case by (simp add: basis_current_def Camera_def Let_def updateCameraVectors_idem)
next
  case (by_scalars this posX posY posZ upX upY upZ yaw pitch)
  show ?case by (simp add: basis_current_def Camera_scalars_def Let_def updateCameraVectors_idem)
next
  case (keyboard c direction deltaTime)
  then have "updateCameraVectors c = c" by (simp add: basis_current_def)
  then have "updateCameraVectors (c\<lparr>Position := Position (ProcessKeyboard c direction deltaTime)\<rparr>)
      = c\<lparr>Position := Position (ProcessKeyboard c direction deltaTime)\<rparr>"
    by (simp add: updateCameraVectors_Position)
  then show ?case
    using ProcessKeyboard_only_Position [of c direction deltaTime] by (simp add: basis_current_def)
next
  case (mouse c xoffset yoffset constrainPitch)
  show ?case
    by (simp add: basis_current_def ProcessMouseMovement_def Let_def updateCameraVectors_idem)
next
  case (scroll c yoffset)
  then have "updateCameraVectors c = c" by (simp add: basis_current_def)
  then have "updateCameraVectors (c\<lparr>Zoom := Zoom (ProcessMouseScroll c yoffset)\<rparr>)
      = c\<lparr>Zoom := Zoom (ProcessMouseScroll c yoffset)\<rparr>"
    by (simp add: updateCameraVectors_Zoom)
  then show ?case
    using ProcessMouseScroll_only_Zoom [of c yoffset] by (simp add: basis_current_def)
qed

lemma reachable_fields:
  assumes "reachable c"
  shows "Front c = EulerAnglesRotate (EulerAngles c)"
    and "Right c = normalize_vec (cross (Front c) (WorldUp c))"
    and "Up c = normalize_vec (cross (Right c) (Front c))"
proof -
  have u: "updateCameraVectors c = c"
    using reachable_basis_current [OF assms] by (simp add: basis_current_def)
  show 1: "Front c = EulerAnglesRotate (EulerAngles c)"
    using updateCameraVectors_fields(1) [of c] by (simp add: u)
  show 2: "Right c = normalize_vec (cross (Front c) (WorldUp c))"
    using updateCameraVectors_fields(2) [of c] by (simp add: u 1)
  show "Up c = normalize_vec (cross (Right c) (Front c))"
    using updateCameraVectors_fields(3) [of c] 1 2 by (simp add: u)
qed

lemma reachable_Camera_default: "reachable (Camera_default this)"
  unfolding Camera_default_def by (rule reachable.by_vectors)

subsection \<open>Orthonormality of the basis\<close>

lemma inv_sqrt_sq:
  assumes "(d::real) > 0"
  shows "(1 / sqrt d) * (1 / sqrt d) * d = 1"
proof -
  have "sqrt d * sqrt d = d" using assms by simp
  moreover have "sqrt d \<noteq> 0" using assms by simp
  ultimately show ?thesis by (simp add: field_simps)
qed

lemma sum_squares_pos:
  "a * a + b * b + c * c \<noteq> 0 \<Longrightarrow> 0 < a * a + b * b + c * c" for a :: real
  by (metis add_nonneg_nonneg less_eq_real_def zero_le_square)

lemma normalize_vec_unit:
  assumes "a * a + b * b + c * c \<noteq> 0"
  shows "\<exists>x y z. normalize_vec (vec3 a b c) = vec3 x y z \<and> x * x + y * y + z * z = 1"
proof -
  define k where "k = 1 / sqrt (a * a + b * b + c * c)"
  have kk: "k * k * (a * a + b * b + c * c) = 1"
    unfolding k_def by (rule inv_sqrt_sq) (rule sum_squares_pos [OF assms])
  have "(a * k) * (a * k) + (b * k) * (b * k) + (c * k) * (c * k) = k * k * (a * a + b * b + c * c)"
    by (simp only: algebra_simps)
  then have "(a * k) * (a * k) + (b * k) * (b * k) + (c * k) * (c * k) = 1"
    using kk by simp
  moreover have "normalize_vec (vec3 a b c) = vec3 (a * k) (b * k) (c * k)"
    using assms by (simp add: Let_def k_def)
  ultimately show ?thesis by blast
qed

text \<open>The squared length of a cross product (Lagrange), on components.\<close>

lemma cross_length_sq:
  "(r2 * f3 - f2 * r3) * (r2 * f3 - f2 * r3) + (r3 * f1 - f3 * r1) * (r3 * f1 - f3 * r1)
     + (r1 * f2 - f1 * r2) * (r1 * f2 - f1 * r2)
   = (r1 * r1 + r2 * r2 + r3 * r3) * (f1 * f1 + f2 * f2 + f3 * f3)
     - (r1 * f1 + r2 * f2 + r3 * f3) * (r1 * f1 + r2 * f2 + r3 * f3)" for r1 :: real
  by (simp add: algebra_simps)

text \<open>
  From a unit front and a world-up whose cross product with it is a nonzero real vector,
  the two normalised cross products complete an orthonormal basis.
\<close>

lemma basis_orthonormal:
  assumes f: "f = vec3 f1 f2 f3" "f1 * f1 + f2 * f2 + f3 * f3 = 1"
    and x: "cross f w = vec3 p q r" "vec3 p q r \<noteq> vec3 0 0 0"
  shows "orthonormal f (normalize_vec (cross f w))
           (normalize_vec (cross (normalize_vec (cross f w)) f))"
proof -
  obtain w1 w2 w3 where w: "w = vec3 w1 w2 w3"
    using x(1) f(1) by (cases w) simp_all
  have pqr: "p = f2 * w3 - w2 * f3" "q = f3 * w1 - w3 * f1" "r = f1 * w2 - w1 * f2"
    using x(1) f(1) w by simp_all
  have d: "p * p + q * q + r * r \<noteq> 0"
  proof
    assume "p * p + q * q + r * r = 0"
    then have "p = 0 \<and> q = 0 \<and> r = 0"
      by (smt (verit) zero_le_square mult_eq_0_iff add_nonneg_eq_0_iff)
    then show False using x(2) by simp
  qed
  obtain r1 r2 r3 where R: "normalize_vec (vec3 p q r) = vec3 r1 r2 r3"
    and R1: "r1 * r1 + r2 * r2 + r3 * r3 = 1"
    using normalize_vec_unit [OF d] by blast
  define k where "k = 1 / sqrt (p * p + q * q + r * r)"
  have Rk: "r1 = p * k" "r2 = q * k" "r3 = r * k"
    using R d by (simp_all add: Let_def k_def)
  have fR: "f1 * r1 + f2 * r2 + f3 * r3 = 0"
  proof -
    have "f1 * r1 + f2 * r2 + f3 * r3 = (f1 * p + f2 * q + f3 * r) * k"
      unfolding Rk by (simp only: algebra_simps)
    also have "f1 * p + f2 * q + f3 * r = 0"
      by (simp add: pqr algebra_simps)
    finally show ?thesis by simp
  qed
  let ?u1 = "r2 * f3 - f2 * r3" and ?u2 = "r3 * f1 - f3 * r1" and ?u3 = "r1 * f2 - f1 * r2"
  have U: "cross (vec3 r1 r2 r3) f = vec3 ?u1 ?u2 ?u3"
    by (simp add: f(1))
  have "?u1 * ?u1 + ?u2 * ?u2 + ?u3 * ?u3
      = (r1 * r1 + r2 * r2 + r3 * r3) * (f1 * f1 + f2 * f2 + f3 * f3)
        - (r1 * f1 + r2 * f2 + r3 * f3) * (r1 * f1 + r2 * f2 + r3 * f3)"
    by (rule cross_length_sq)
  also have "\<dots> = 1"
    using R1 f(2) fR by (simp add: mult.commute)
  finally have U1: "?u1 * ?u1 + ?u2 * ?u2 + ?u3 * ?u3 = 1" .
  have NU: "normalize_vec (vec3 ?u1 ?u2 ?u3) = vec3 ?u1 ?u2 ?u3"
    by (simp only: normalize_vec.simps Let_def U1) simp
  have fU: "f1 * ?u1 + f2 * ?u2 + f3 * ?u3 = 0" by (simp add: algebra_simps)
  have RU: "r1 * ?u1 + r2 * ?u2 + r3 * ?u3 = 0" by (simp add: algebra_simps)
  show ?thesis
    unfolding x(1) R U NU
    using f R1 U1 fR fU RU by (simp add: orthonormal_def length_vec_def)
qed

lemma orthonormal_nan: "\<not> orthonormal f vec3_nan u"
  by (simp add: orthonormal_def length_vec_def)

text \<open>The cosine of a pitch within [-89, 89] degrees is positive.\<close>

lemma cos_radians_pos:
  assumes "- 89 \<le> p" and "p \<le> 89"
  shows "0 < cos (radians p)"
proof -
  have lo: "- (pi * 89) \<le> pi * p"
    using mult_left_mono [of "- 89" p pi] assms(1) pi_gt_zero by simp
  have hi: "pi * p \<le> pi * 89"
    using mult_left_mono [of p 89 pi] assms(2) pi_gt_zero by simp
  have gap: "pi * 89 < pi * 90"
    using pi_gt_zero by simp
  have "- (pi * 90) < pi * p"
    using lo gap by linarith
  then have "- (pi / 2) < p * (pi / 180)"
    by (simp add: field_simps)
  moreover have "pi * p < pi * 90"
    using hi gap by linarith
  then have "p * (pi / 180) < pi / 2"
    by (simp add: field_simps)
  ultimately show ?thesis
    unfolding radians_def by (rule cos_gt_zero_pi)
qed

text \<open>
  With world-up (0,1,0) and pitch within [-89, 89], the range the clamp of
  \<^verbatim>\<open>ProcessMouseMovement\<close> keeps, front is never parallel to world-up and the basis is
  orthonormal.
\<close>

lemma basis_orthonormal_constrained_pitch:
  assumes "reachable c" and "WorldUp c = vec3 0 1 0"
    and "- 89 \<le> Pitch (EulerAngles c)" and "Pitch (EulerAngles c) \<le> 89"
  shows "orthonormal (Front c) (Right c) (Up c)"
proof -
  let ?cy = "cos (radians (Yaw (EulerAngles c)))" and ?sy = "sin (radians (Yaw (EulerAngles c)))"
  let ?cp = "cos (radians (Pitch (EulerAngles c)))"
  note F = reachable_fields [OF assms(1)]
  obtain f1 f2 f3 where f: "Front c = vec3 f1 f2 f3" "f1 * f1 + f2 * f2 + f3 * f3 = 1"
    using EulerAnglesRotate_unit [of "EulerAngles c"] F(1) by auto
  have cp: "?cp \<noteq> 0"
    using cos_radians_pos [OF assms(3,4)] by simp
  have x: "cross (Front c) (WorldUp c) = vec3 (- (?sy * ?cp)) 0 (?cy * ?cp)"
    by (simp add: F(1) assms(2) EulerAnglesRotate_def)
  have "\<not> (?sy = 0 \<and> ?cy = 0)"
    by (metis sin_cos_squared_add3 mult_zero_left add_0 zero_neq_one)
  then have nz: "vec3 (- (?sy * ?cp)) 0 (?cy * ?cp) \<noteq> vec3 0 0 0"
    using cp by auto
  have "orthonormal (Front c) (normalize_vec (cross (Front c) (WorldUp c)))
          (normalize_vec (cross (normalize_vec (cross (Front c) (WorldUp c))) (Front c)))"
    by (rule basis_orthonormal [OF f x nz])
  then show ?thesis using F(2) F(3) by simp
qed

text \<open>
  C1, as amended. In every state reachable through the constructors and the member
  functions the stored basis is the one the current yaw, pitch and world-up determine
  (front from the angles, right from front and world-up, up from right and front), so it
  is never stale; and front, right and up are mutually orthogonal unit vectors exactly
  when the cross product of front and world-up is a nonzero real vector, that is, when
  world-up is neither zero nor parallel to front.
\<close>

theorem basis_orthonormal_iff_not_parallel:
  assumes "reachable c"
  shows "Front c = EulerAnglesRotate (EulerAngles c) \<and>
         Right c = normalize_vec (cross (Front c) (WorldUp c)) \<and>
         Up c = normalize_vec (cross (Right c) (Front c)) \<and>
         (orthonormal (Front c) (Right c) (Up c) \<longleftrightarrow>
            cross (Front c) (WorldUp c) \<noteq> vec3_nan \<and> cross (Front c) (WorldUp c) \<noteq> vec3 0 0 0)"
proof -
  note F = reachable_fields [OF assms]
  obtain f1 f2 f3 where f: "Front c = vec3 f1 f2 f3" "f1 * f1 + f2 * f2 + f3 * f3 = 1"
    using EulerAnglesRotate_unit [of "EulerAngles c"] F(1) by auto
  have "orthonormal (Front c) (Right c) (Up c) \<longleftrightarrow>
          cross (Front c) (WorldUp c) \<noteq> vec3_nan \<and> cross (Front c) (WorldUp c) \<noteq> vec3 0 0 0"
  proof (cases "cross (Front c) (WorldUp c)")
    case vec3_nan
    then have "Right c = vec3_nan" using F(2) by simp
    then show ?thesis using vec3_nan by (simp add: orthonormal_nan)
  next
    case (vec3 p q r)
    show ?thesis
    proof (cases "vec3 p q r = vec3 0 0 0")
      case True
      then have "Right c = vec3_nan" using F(2) vec3 by simp
      then show ?thesis using vec3 True by (simp add: orthonormal_nan)
    next
      case False
      have "orthonormal (Front c) (normalize_vec (cross (Front c) (WorldUp c)))
              (normalize_vec (cross (normalize_vec (cross (Front c) (WorldUp c))) (Front c)))"
        by (rule basis_orthonormal [OF f vec3 False])
      then have "orthonormal (Front c) (Right c) (Up c)"
        using F(2) F(3) by simp
      then show ?thesis using vec3 False by simp
    qed
  qed
  then show ?thesis using F by blast
qed

text \<open>
  The default camera is reachable, its front (0,0,-1) and world-up (0,1,0) have the cross
  product (1,0,0), and its basis is orthonormal.
\<close>

theorem basis_orthonormal_default_witness:
  "reachable (Camera_default zeroed) \<and>
   cross (Front (Camera_default zeroed)) (WorldUp (Camera_default zeroed)) = vec3 1 0 0 \<and>
   orthonormal (Front (Camera_default zeroed)) (Right (Camera_default zeroed))
     (Up (Camera_default zeroed))"
proof -
  have r: "reachable (Camera_default zeroed)"
    by (rule reachable_Camera_default)
  have x: "cross (Front (Camera_default zeroed)) (WorldUp (Camera_default zeroed)) = vec3 1 0 0"
    by (simp add: Camera_default_fields)
  have "orthonormal (Front (Camera_default zeroed)) (Right (Camera_default zeroed))
          (Up (Camera_default zeroed)) \<longleftrightarrow>
        cross (Front (Camera_default zeroed)) (WorldUp (Camera_default zeroed)) \<noteq> vec3_nan \<and>
        cross (Front (Camera_default zeroed)) (WorldUp (Camera_default zeroed)) \<noteq> vec3 0 0 0"
    using basis_orthonormal_iff_not_parallel [OF r] by blast
  then show ?thesis using r x by simp
qed

text \<open>
  C1 as stated fails. A camera constructed with yaw 0, pitch 0 and world-up (1,0,0) looks
  along its world-up: front is (1,0,0), the cross product of front and world-up is the
  zero vector and right is NaN in every component. The state is reachable and its basis
  is not orthonormal.
\<close>

theorem basis_degenerate_counterexample:
  "reachable (Camera zeroed (vec3 0 0 0) (vec3 1 0 0) 0 0) \<and>
   Front (Camera zeroed (vec3 0 0 0) (vec3 1 0 0) 0 0) = vec3 1 0 0 \<and>
   Right (Camera zeroed (vec3 0 0 0) (vec3 1 0 0) 0 0) = vec3_nan \<and>
   \<not> orthonormal (Front (Camera zeroed (vec3 0 0 0) (vec3 1 0 0) 0 0))
                  (Right (Camera zeroed (vec3 0 0 0) (vec3 1 0 0) 0 0))
                  (Up (Camera zeroed (vec3 0 0 0) (vec3 1 0 0) 0 0))"
proof -
  have f: "Front (Camera zeroed (vec3 0 0 0) (vec3 1 0 0) 0 0) = vec3 1 0 0"
    by (simp add: Camera_def updateCameraVectors_def Let_def EulerAnglesRotate_def radians_def)
  have a: "Right (Camera zeroed (vec3 0 0 0) (vec3 1 0 0) 0 0) = vec3_nan"
    by (simp add: Camera_def updateCameraVectors_def Let_def EulerAnglesRotate_def radians_def)
  show ?thesis
    by (simp only: f a orthonormal_nan reachable.by_vectors simp_thms)
qed

subsection \<open>Forward, then backward\<close>

lemma vsub_vadd_cancel: "vsub (vadd p (vec3 x y z)) (vec3 x y z) = p"
  by (cases p) simp_all

text \<open>
  C6, as amended. In exact arithmetic, for every reachable camera state and every dt,
  \<^verbatim>\<open>ProcessKeyboard(FORWARD, dt)\<close> followed by \<^verbatim>\<open>ProcessKeyboard(BACKWARD, dt)\<close> returns position
  to its original value.
\<close>

theorem ProcessKeyboard_round_trip_exact:
  assumes "reachable c"
  shows "Position (ProcessKeyboard (ProcessKeyboard c FORWARD dt) BACKWARD dt) = Position c"
proof -
  obtain a b d where f: "Front c = vec3 a b d"
    using reachable_fields(1) [OF assms] by (simp add: EulerAnglesRotate_def)
  show ?thesis
    by (simp add: ProcessKeyboard_def Let_def f vsub_vadd_cancel)
qed

text \<open>The default camera, moved forward and back with dt = 2, is at the origin again.\<close>

theorem ProcessKeyboard_round_trip_witness:
  "reachable (Camera_default zeroed) \<and>
   Position (ProcessKeyboard (ProcessKeyboard (Camera_default zeroed) FORWARD 2) BACKWARD 2)
     = vec3 0 0 0"
proof -
  have r: "reachable (Camera_default zeroed)"
    by (rule reachable_Camera_default)
  show ?thesis
    using r ProcessKeyboard_round_trip_exact [OF r, of 2] by (simp add: Camera_default_fields)
qed

text \<open>Evaluating \<open>round32\<close>: within one binade the exponent is known.\<close>

lemma round32_binade:
  assumes "2 powr of_int k \<le> \<bar>x\<bar>" and "\<bar>x\<bar> < 2 powr of_int (k + 1)" and "- 126 \<le> k"
  shows "round32 x =
     (let r = of_int (round_to_even (x / 2 powr of_int (k - 23))) * 2 powr of_int (k - 23)
      in if \<bar>r\<bar> < 2 ^ 128 then Some r else None)"
proof -
  have pos: "0 < \<bar>x\<bar>"
    using assms(1) by (smt (verit) powr_gt_zero)
  have "\<lfloor>log 2 \<bar>x\<bar>\<rfloor> = k"
    using floor_log_eq_powr_iff [of "\<bar>x\<bar>" 2 k] pos assms(1,2) by simp
  moreover have "max (k - 23) (- 149) = k - 23"
    using assms(3) by simp
  moreover have "x \<noteq> 0" using pos by simp
  ultimately show ?thesis by (simp add: round32_def Let_def)
qed

text \<open>
  The numbers of the example below are binary32 numbers (rounding leaves them as they
  are), except the two sums: 16777216 + 5/8 rounds to 16777216, where neighbouring floats
  are 2 apart, and 16777216 - 5/8 rounds to 16777215, where they are 1 apart.
\<close>

lemma round32_values:
  "round32 0 = Some 0"
  "round32 1 = Some 1"
  "round32 (5 / 2) = Some (5 / 2)"
  "round32 (1 / 4) = Some (1 / 4)"
  "round32 (5 / 8) = Some (5 / 8)"
  "round32 16777216 = Some 16777216"
  "round32 (16777216 + 5 / 8) = Some 16777216"
  "round32 (16777216 - 5 / 8) = Some 16777215"
  using round32_binade [of 0 1] round32_binade [of 1 "5 / 2"] round32_binade [of "- 2" "1 / 4"]
    round32_binade [of "- 1" "5 / 8"] round32_binade [of 24 16777216]
    round32_binade [of 24 "16777216 + 5 / 8"] round32_binade [of 23 "16777216 - 5 / 8"]
  by (simp_all add: round32_def round_to_even_def Let_def powr_neg_numeral)

lemma far_camera_fields:
  "Position far_camera = vec3 16777216 0 0"
  "Front far_camera = vec3 1 0 0"
  "Right far_camera = vec3 0 0 1"
  "Up far_camera = vec3 0 1 0"
  "MovementSpeed far_camera = 5 / 2"
  by (simp_all add: far_camera_def Camera_def updateCameraVectors_def Let_def
      EulerAnglesRotate_def radians_def SPEED_def)

text \<open>
  C6 as stated fails in the arithmetic of the source. The camera constructed at
  (16777216, 0, 0) with yaw 0 and pitch 0 has front (1,0,0) and speed 2.5; with dt = 1/4
  the step is 5/8, computed without rounding (so fusing the product into the addition
  gives the same result). FORWARD leaves the camera as it is, because 16777216 + 5/8
  rounds back to 16777216; BACKWARD then moves it to 16777215. The position, the speed and
  dt are binary32 numbers.
\<close>

theorem ProcessKeyboard_round_trip_binary32_counterexample:
  "reachable far_camera \<and>
   round32 16777216 = Some 16777216 \<and> round32 (5 / 2) = Some (5 / 2) \<and>
   round32 (1 / 4) = Some (1 / 4) \<and>
   Position far_camera = vec3 16777216 0 0 \<and>
   ProcessKeyboard_f32 far_camera FORWARD (1 / 4) = Some far_camera \<and>
   map_option Position (ProcessKeyboard_f32 far_camera BACKWARD (1 / 4))
     = Some (vec3 16777215 0 0)"
proof -
  have r: "reachable far_camera"
    unfolding far_camera_def by (rule reachable.by_vectors)
  have v: "round32 (MovementSpeed far_camera * (1 / 4)) = Some (5 / 8)"
    using round32_values(5) by (simp add: far_camera_fields)
  have f: "ProcessKeyboard_f32 far_camera FORWARD (1 / 4)
             = Some (far_camera\<lparr>Position := vec3 16777216 0 0\<rparr>)"
    using round32_values
    by (simp add: ProcessKeyboard_f32_def v far_camera_fields)
  have "far_camera\<lparr>Position := vec3 16777216 0 0\<rparr> = far_camera"
    using far_camera_fields(1) by (metis Camera_t.surjective Camera_t.update_convs(1))
  with f have f': "ProcessKeyboard_f32 far_camera FORWARD (1 / 4) = Some far_camera" by simp
  have b: "map_option Position (ProcessKeyboard_f32 far_camera BACKWARD (1 / 4))
             = Some (vec3 16777215 0 0)"
    using round32_values
    by (simp add: ProcessKeyboard_f32_def v far_camera_fields)
  show ?thesis
    using r f' b far_camera_fields(1) round32_values(3,4,6) by simp
qed

subsection \<open>Pitch 90 in binary32 radians\<close>

lemma radians_f32_eq: "radians_f32 degrees = round32 (degrees * (9370165 / 536870912))"
  unfolding radians_f32_def
  using round32_binade [of "- 6" "0.01745329251994329576923690768489"]
  by (simp add: round_to_even_def Let_def powr_neg_numeral)

text \<open>90 degrees become 13176795 / 8388608 = 1.5707963705..., above pi / 2 = 1.5707963267....\<close>

lemma radians_f32_values:
  "radians_f32 0 = Some 0"
  "radians_f32 90 = Some (13176795 / 8388608)"
  unfolding radians_f32_eq
  using round32_binade [of 0 "90 * (9370165 / 536870912)"]
  by (simp_all add: round32_def round_to_even_def Let_def powr_neg_numeral)

text \<open>The cosine is at most its Taylor polynomial of degree 14 plus the next term.\<close>

lemma cos_taylor_upper:
  assumes "0 < (x::real)"
  shows "cos x \<le> (\<Sum>m<16. cos_coeff m * x ^ m) + x ^ 16 / fact 16"
proof -
  obtain t where t: "cos x = (\<Sum>m<16. cos_coeff m * x ^ m)
      + (cos (t + 1 / 2 * real 16 * pi) / fact 16) * x ^ 16"
    using Maclaurin_cos_expansion2 [of x 16] assms by auto
  have "cos (t + 1 / 2 * real 16 * pi) \<le> 1" by (rule cos_le_one)
  then have "cos (t + 1 / 2 * real 16 * pi) / fact 16 \<le> 1 / fact 16"
    by (simp add: divide_right_mono)
  then have "(cos (t + 1 / 2 * real 16 * pi) / fact 16) * x ^ 16 \<le> (1 / fact 16) * x ^ 16"
    using assms by (intro mult_right_mono) simp_all
  then show ?thesis using t by simp
qed

lemma sum_lessThan_16:
  "(\<Sum>m<16. f m) = f 0 + f 1 + f 2 + f 3 + f 4 + f 5 + f 6 + f 7 + f 8 + f 9 + f 10 + f 11
      + f 12 + f 13 + f 14 + f 15" for f :: "nat \<Rightarrow> real"
  by (simp add: eval_nat_numeral)

lemma cos_coeff_sum_16:
  "(\<Sum>m<16. cos_coeff m * x ^ m) =
     1 - x ^ 2 / 2 + x ^ 4 / 24 - x ^ 6 / 720 + x ^ 8 / 40320 - x ^ 10 / 3628800
       + x ^ 12 / 479001600 - x ^ 14 / 87178291200" for x :: real
  unfolding sum_lessThan_16 by (simp add: cos_coeff_def fact_numeral)

text \<open>The cosine of the binary32 number next to pi / 2 is negative (about -4.37e-8).\<close>

lemma cos_float_half_pi: "cos (13176795 / 8388608 :: real) < 0"
proof -
  have "cos (13176795 / 8388608 :: real)
      \<le> (\<Sum>m<16. cos_coeff m * (13176795 / 8388608) ^ m) + (13176795 / 8388608) ^ 16 / fact 16"
    by (rule cos_taylor_upper) simp
  also have "\<dots> < 0"
    unfolding cos_coeff_sum_16 by (simp add: fact_numeral power_divide)
  finally show ?thesis .
qed

lemma sin_cos_sq: "sin x * sin x + cos x * cos x = (1::real)"
  using sin_cos_squared_add3 [of x] by linarith

lemma normalize_vec_unit_id:
  assumes "a * a + b * b + c * c = 1"
  shows "normalize_vec (vec3 a b c) = vec3 a b c"
  using assms by (simp add: Let_def)

lemma normalize_vec_z:
  assumes "c < 0"
  shows "normalize_vec (vec3 0 0 c) = vec3 0 0 (- 1)"
proof -
  have "sqrt (c * c) = - c"
    using assms by (simp add: real_sqrt_mult_self)
  then show ?thesis using assms by (simp add: Let_def)
qed

lemma EulerAnglesRotate_r32_pitch_90:
  "EulerAnglesRotate_r32 \<lparr>Yaw = 0, Pitch = 90\<rparr>
     = Some (vec3 (cos (13176795 / 8388608)) (sin (13176795 / 8388608)) 0)"
  by (simp add: EulerAnglesRotate_r32_def radians_f32_values)

lemma Camera_r32_pitch_90:
  "Camera_r32 zeroed (vec3 0 0 0) (vec3 0 1 0) 0 90 =
     Some (zeroed\<lparr>Front := vec3 (cos (13176795 / 8388608)) (sin (13176795 / 8388608)) 0,
       MovementSpeed := SPEED, MouseSensitivity := SENSITIVITY, Zoom := ZOOM,
       Position := vec3 0 0 0, WorldUp := vec3 0 1 0,
       EulerAngles := \<lparr>Yaw = 0, Pitch = 90\<rparr>,
       Right := vec3 0 0 (- 1),
       Up := vec3 (sin (13176795 / 8388608)) (- cos (13176795 / 8388608)) 0\<rparr>)"
proof -
  let ?r = "13176795 / 8388608 :: real"
  have nf: "normalize_vec (vec3 (cos ?r) (sin ?r) 0) = vec3 (cos ?r) (sin ?r) 0"
    by (rule normalize_vec_unit_id) (simp add: sin_cos_squared_add3)
  have x: "cross (vec3 (cos ?r) (sin ?r) 0) (vec3 0 1 0) = vec3 0 0 (cos ?r)"
    by simp
  have nr: "normalize_vec (vec3 0 0 (cos ?r)) = vec3 0 0 (- 1)"
    by (rule normalize_vec_z) (rule cos_float_half_pi)
  have y: "cross (vec3 0 0 (- 1)) (vec3 (cos ?r) (sin ?r) 0) = vec3 (sin ?r) (- cos ?r) 0"
    by simp
  have nu: "normalize_vec (vec3 (sin ?r) (- cos ?r) 0) = vec3 (sin ?r) (- cos ?r) 0"
    by (rule normalize_vec_unit_id) (simp add: sin_cos_sq)
  show ?thesis
    unfolding Camera_r32_def updateCameraVectors_r32_def Let_def
    by (simp add: zeroed_def EulerAnglesRotate_r32_pitch_90 nf x nr y nu
        del: normalize_vec.simps cross.simps)
qed

text \<open>
  C10 as stated fails in its parenthesis: construction with pitch 90 and world-up (0,1,0)
  does not give a front parallel to world-up nor a degenerate cross product. The code
  passes to \<open>cos\<close> the binary32 number 13176795 / 8388608, whose cosine is negative, not 0.
  With yaw 0, front is (cos, sin, 0) of that number, the cross product of front and
  world-up is (0, 0, cos), not the zero vector, and right = (0, 0, -1) and
  up = (sin, -cos, 0) are real unit vectors.
\<close>

theorem pitch_90_binary32_radians_counterexample:
  "radians_f32 90 = Some (13176795 / 8388608) \<and>
   cos (13176795 / 8388608 :: real) < 0 \<and>
   map_option Front (Camera_r32 zeroed (vec3 0 0 0) (vec3 0 1 0) 0 90)
     = Some (vec3 (cos (13176795 / 8388608)) (sin (13176795 / 8388608)) 0) \<and>
   cross (vec3 (cos (13176795 / 8388608)) (sin (13176795 / 8388608)) 0) (vec3 0 1 0)
     = vec3 0 0 (cos (13176795 / 8388608)) \<and>
   map_option Right (Camera_r32 zeroed (vec3 0 0 0) (vec3 0 1 0) 0 90) = Some (vec3 0 0 (- 1)) \<and>
   map_option Up (Camera_r32 zeroed (vec3 0 0 0) (vec3 0 1 0) 0 90)
     = Some (vec3 (sin (13176795 / 8388608)) (- cos (13176795 / 8388608)) 0)"
  unfolding Camera_r32_pitch_90
  using cos_float_half_pi radians_f32_values(2) by simp

end
